theory Spec2Isabelle
  imports Complex_Main
begin

section \<open>Data model of backend/main.go\<close>

text \<open>
  The handlers of \<open>backend/main.go\<close> only store, copy and compare \<open>float64\<close>
  values: no floating-point arithmetic is performed on them. A \<open>float64\<close> is
  therefore modelled by the real number that its literal denotes, and a
  \<open>*float64\<close> by \<open>real option\<close> (\<open>None\<close> is the nil pointer, an unset field).
  \<open>StartDate\<close> and \<open>EndDate\<close> are plain Go strings; the empty string is their
  unset value.
\<close>

record SimulationParams =
  ThermalMass :: "real option"
  ThermalMassKg :: "real option"
  CpMass :: "real option"
  VentilationRate :: "real option"
  U_day :: "real option"
  U_night :: "real option"
  A_glass :: "real option"
  tau_glass :: "real option"
  ACH :: "real option"
  Volume :: "real option"
  C :: "real option"
  T_init :: "real option"
  Setpoint :: "real option"
  Lat :: "real option"
  Lon :: "real option"
  StartDate :: string
  EndDate :: string
  HeaterMaxW :: "real option"
  EvapRate :: "real option"
  FractionSolarAir :: "real option"

text \<open>
  \<open>applyDefaults\<close> mutates the record behind the pointer; the model returns the
  updated record. The twelve \<open>if\<close> statements run in the order of the source.
\<close>

definition applyDefaults :: "SimulationParams \<Rightarrow> SimulationParams" where
  "applyDefaults p0 =
    (let p1 = (if A_glass p0 = None then p0\<lparr>A_glass := Some 50.0\<rparr> else p0);
         p2 = (if tau_glass p1 = None then p1\<lparr>tau_glass := Some 0.85\<rparr> else p1);
         p3 = (if U_day p2 = None then p2\<lparr>U_day := Some 3.0\<rparr> else p2);
         p4 = (if U_night p3 = None then p3\<lparr>U_night := Some 0.6\<rparr> else p3);
         p5 = (if ACH p4 = None then p4\<lparr>ACH := Some 0.5\<rparr> else p4);
         p6 = (if Volume p5 = None then p5\<lparr>Volume := Some 100.0\<rparr> else p5);
         p7 = (if C p6 = None \<and> ThermalMassKg p6 = None
               then p6\<lparr>C := Some 20000000\<rparr> else p6);
         p8 = (if CpMass p7 = None then p7\<lparr>CpMass := Some 4186.0\<rparr> else p7);
         p9 = (if T_init p8 = None then p8\<lparr>T_init := Some 15.0\<rparr> else p8);
         p10 = (if Setpoint p9 = None then p9\<lparr>Setpoint := Some 12.0\<rparr> else p9);
         p11 = (if HeaterMaxW p10 = None then p10\<lparr>HeaterMaxW := Some 5000.0\<rparr> else p10);
         p12 = (if FractionSolarAir p11 = None
                then p11\<lparr>FractionSolarAir := Some 0.5\<rparr> else p11)
     in p12)"

text \<open>
  \<open>time.Time\<close> values are only produced by \<open>time.Now().UTC()\<close> and copied
  into records; an instant is a natural number. A \<open>time.Duration\<close> is its
  number of nanoseconds.
\<close>

type_synonym time = nat

record JobMeta =
  JobID :: string
  Status :: string
  CreatedAt :: time
  UpdatedAt :: time
  Params :: SimulationParams
  Error :: string
  ResultKey :: string

text \<open>
  \<open>JobPayload\<close> has the fields \<open>JobID\<close>, \<open>CreatedAt\<close> and \<open>Params\<close> in the
  source; they carry the prefix \<open>payload\<close> here, since two records of one theory
  cannot share a field name.
\<close>

record JobPayload =
  payloadJobID :: string
  payloadCreatedAt :: time
  payloadParams :: SimulationParams

definition StatusQueued :: string where "StatusQueued = ''queued''"
definition StatusRunning :: string where "StatusRunning = ''running''"
definition StatusDone :: string where "StatusDone = ''done''"
definition StatusError :: string where "StatusError = ''error''"

definition RedisJobsList :: string where "RedisJobsList = ''simulation_jobs''"
definition RedisResultsPrefix :: string where "RedisResultsPrefix = ''job_result:''"
definition RedisJobMetaPrefix :: string where "RedisJobMetaPrefix = ''job_meta:''"
definition RedisRecentJobsList :: string where "RedisRecentJobsList = ''recent_simulation_ids''"
definition DefaultResultTTL :: nat where "DefaultResultTTL = 24 * 3600000000000"
definition RecentJobsMaxRetain :: int where "RecentJobsMaxRetain = 100"

section \<open>HTTP responses and the JSON codec\<close>

text \<open>
  A JSON document, as \<open>encoding/json\<close> decodes it into an \<open>interface{}\<close>.
\<close>

datatype json =
  JNull
| JBool bool
| JNum real
| JStr string
| JArr "json list"
| JObj "(string \<times> json) list"

text \<open>
  \<open>c.JSON(code, obj)\<close> is called with a \<open>gin.H\<close> (a map from keys to values,
  written here as the list of its entries in the order of the source) or with a
  \<open>JobMeta\<close> struct.
\<close>

datatype body = H "(string \<times> json) list" | MetaBody JobMeta

record response =
  code :: nat
  body :: body

text \<open>
  The functions of \<open>gin\<close> and \<open>encoding/json\<close> that the handlers call are
  parameters of the model:
  \<^item> \<open>bindJSON\<close> is \<open>c.BindJSON(&params)\<close>: the error text or the decoded record;
  \<^item> \<open>marshalPayload\<close> and \<open>marshalMeta\<close> are \<open>json.Marshal\<close> (\<open>None\<close> is an error,
    in which case the returned byte slice is nil);
  \<^item> \<open>unmarshalMeta\<close> is \<open>json.Unmarshal\<close> into a zero \<open>JobMeta\<close>: the struct as
    the call leaves it, and the error if there is one;
  \<^item> \<open>unmarshalAny\<close> is \<open>json.Unmarshal\<close> into an \<open>interface{}\<close>.
\<close>

record codec =
  bindJSON :: "string \<Rightarrow> string + SimulationParams"
  marshalPayload :: "JobPayload \<Rightarrow> string option"
  marshalMeta :: "JobMeta \<Rightarrow> string option"
  unmarshalMeta :: "string \<Rightarrow> JobMeta \<times> string option"
  unmarshalAny :: "string \<Rightarrow> json option"

section \<open>The Redis store\<close>

text \<open>
  The handlers talk to Redis through \<open>rdb\<close>. A key holds a string with its
  time to live, or a list. A command may fail without effect (connection lost,
  deadline of the context exceeded): \<open>faults\<close> is the schedule of such failures,
  one entry per command to come, \<open>Some e\<close> for a failure with error text \<open>e\<close>;
  commands beyond the end of the schedule do not fail. \<open>issued\<close> is the trace of
  the commands sent so far.
\<close>

datatype rval = RString string nat | RList "string list"

datatype cmd =
  RPUSH string string
| LPUSH string string
| LTRIM string int int
| LRANGE string int int
| SET string string nat
| GET string

record redis =
  kv :: "string \<Rightarrow> rval option"
  faults :: "string option list"
  issued :: "cmd list"

text \<open>
  A Go \<open>error\<close> returned by the client: the sentinel \<open>redis.Nil\<close> or any other
  error with its text. \<open>Error_msg\<close> is the method \<open>Error()\<close>.
\<close>

datatype rerr = RedisNil | RedisError string

fun Error_msg :: "rerr \<Rightarrow> string" where
  "Error_msg RedisNil = ''redis: nil''"
| "Error_msg (RedisError e) = e"

definition WRONGTYPE :: string where
  "WRONGTYPE = ''WRONGTYPE Operation against a key holding the wrong kind of value''"

definition next_fault :: "redis \<Rightarrow> string option" where
  "next_fault r = (case faults r of [] \<Rightarrow> None | f # _ \<Rightarrow> f)"

definition fault_at :: "redis \<Rightarrow> nat \<Rightarrow> string option" where
  "fault_at r i = (if i < length (faults r) then faults r ! i else None)"

definition sent :: "cmd \<Rightarrow> redis \<Rightarrow> redis" where
  "sent c r = r\<lparr>faults := tl (faults r), issued := issued r @ [c]\<rparr>"

text \<open>
  The index arithmetic shared by \<open>LRANGE\<close> and \<open>LTRIM\<close>: negative indices count
  from the end, the range is inclusive and clipped to the list.
\<close>

definition lrange_of :: "int \<Rightarrow> int \<Rightarrow> string list \<Rightarrow> string list" where
  "lrange_of start stop xs =
    (let llen = int (length xs);
         start1 = (if start < 0 then llen + start else start);
         stop1 = (if stop < 0 then llen + stop else stop);
         start2 = (if start1 < 0 then 0 else start1)
     in if start2 > stop1 \<or> start2 \<ge> llen then []
        else let stop2 = (if stop1 \<ge> llen then llen - 1 else stop1)
             in take (nat (stop2 - start2 + 1)) (drop (nat start2) xs))"

definition RPush :: "string \<Rightarrow> string \<Rightarrow> redis \<Rightarrow> (rerr + nat) \<times> redis" where
  "RPush k v r =
    (let r' = sent (RPUSH k v) r
     in case next_fault r of
          Some e \<Rightarrow> (Inl (RedisError e), r')
        | None \<Rightarrow>
            (case kv r k of
               None \<Rightarrow> (Inr 1, r'\<lparr>kv := (kv r)(k \<mapsto> RList [v])\<rparr>)
             | Some (RList xs) \<Rightarrow>
                 (Inr (length xs + 1), r'\<lparr>kv := (kv r)(k \<mapsto> RList (xs @ [v]))\<rparr>)
             | Some (RString s t) \<Rightarrow> (Inl (RedisError WRONGTYPE), r')))"

definition LPush :: "string \<Rightarrow> string \<Rightarrow> redis \<Rightarrow> (rerr + nat) \<times> redis" where
  "LPush k v r =
    (let r' = sent (LPUSH k v) r
     in case next_fault r of
          Some e \<Rightarrow> (Inl (RedisError e), r')
        | None \<Rightarrow>
            (case kv r k of
               None \<Rightarrow> (Inr 1, r'\<lparr>kv := (kv r)(k \<mapsto> RList [v])\<rparr>)
             | Some (RList xs) \<Rightarrow>
                 (Inr (length xs + 1), r'\<lparr>kv := (kv r)(k \<mapsto> RList (v # xs))\<rparr>)
             | Some (RString s t) \<Rightarrow> (Inl (RedisError WRONGTYPE), r')))"

text \<open>A list that \<open>LTRIM\<close> leaves empty is removed with its key.\<close>

definition LTrim :: "string \<Rightarrow> int \<Rightarrow> int \<Rightarrow> redis \<Rightarrow> (rerr + unit) \<times> redis" where
  "LTrim k start stop r =
    (let r' = sent (LTRIM k start stop) r
     in case next_fault r of
          Some e \<Rightarrow> (Inl (RedisError e), r')
        | None \<Rightarrow>
            (case kv r k of
               None \<Rightarrow> (Inr (), r')
             | Some (RList xs) \<Rightarrow>
                 (let ys = lrange_of start stop xs
                  in (Inr (), r'\<lparr>kv := (kv r)(k := (if ys = [] then None else Some (RList ys)))\<rparr>))
             | Some (RString s t) \<Rightarrow> (Inl (RedisError WRONGTYPE), r')))"

definition LRange :: "string \<Rightarrow> int \<Rightarrow> int \<Rightarrow> redis \<Rightarrow> (rerr + string list) \<times> redis" where
  "LRange k start stop r =
    (let r' = sent (LRANGE k start stop) r
     in case next_fault r of
          Some e \<Rightarrow> (Inl (RedisError e), r')
        | None \<Rightarrow>
            (case kv r k of
               None \<Rightarrow> (Inr [], r')
             | Some (RList xs) \<Rightarrow> (Inr (lrange_of start stop xs), r')
             | Some (RString s t) \<Rightarrow> (Inl (RedisError WRONGTYPE), r')))"

text \<open>\<open>SET\<close> with an expiry replaces whatever the key held.\<close>

definition Set :: "string \<Rightarrow> string \<Rightarrow> nat \<Rightarrow> redis \<Rightarrow> (rerr + unit) \<times> redis" where
  "Set k v ttl r =
    (let r' = sent (SET k v ttl) r
     in case next_fault r of
          Some e \<Rightarrow> (Inl (RedisError e), r')
        | None \<Rightarrow> (Inr (), r'\<lparr>kv := (kv r)(k \<mapsto> RString v ttl)\<rparr>))"

text \<open>\<open>GET\<close> of a key that does not exist answers \<open>redis.Nil\<close>.\<close>

definition Get :: "string \<Rightarrow> redis \<Rightarrow> (rerr + string) \<times> redis" where
  "Get k r =
    (let r' = sent (GET k) r
     in case next_fault r of
          Some e \<Rightarrow> (Inl (RedisError e), r')
        | None \<Rightarrow>
            (case kv r k of
               None \<Rightarrow> (Inl RedisNil, r')
             | Some (RString s t) \<Rightarrow> (Inr s, r')
             | Some (RList xs) \<Rightarrow> (Inl (RedisError WRONGTYPE), r')))"

section \<open>The handlers\<close>

text \<open>
  Each handler is a function of the codec, the request, and the store, and
  returns the response written with \<open>c.JSON\<close> and the store afterwards.
  \<open>handleSimulate\<close> also takes the two values it draws from its environment:
  \<open>jobID\<close> is \<open>uuid.NewString()\<close> and \<open>now\<close> is \<open>time.Now().UTC()\<close>.
\<close>

definition errorBody :: "string \<Rightarrow> body" where
  "errorBody msg = H [(''error'', JStr msg)]"

text \<open>
  The last store access of \<open>POST /simulate\<close>: the identifier is pushed at the
  head of the recency list and, if the push returned no error, the list is
  trimmed to its first \<open>RecentJobsMaxRetain\<close> entries. The result of the trim is
  not looked at.
\<close>

definition pushRecent :: "string \<Rightarrow> redis \<Rightarrow> redis" where
  "pushRecent jobID r2 =
     (case LPush RedisRecentJobsList jobID r2 of
        (Inl err, r3) \<Rightarrow> r3
      | (Inr m, r3) \<Rightarrow> snd (LTrim RedisRecentJobsList 0 (RecentJobsMaxRetain - 1) r3))"

text \<open>\<open>POST /simulate\<close>\<close>

definition handleSimulate ::
  "codec \<Rightarrow> string \<Rightarrow> string \<Rightarrow> time \<Rightarrow> redis \<Rightarrow> response \<times> redis" where
  "handleSimulate cd reqBody jobID now r =
    (case bindJSON cd reqBody of
       Inl err \<Rightarrow> (\<lparr>code = 400, body = errorBody (''invalid JSON: '' @ err)\<rparr>, r)
     | Inr params0 \<Rightarrow>
         (let params = applyDefaults params0;
              payload = \<lparr>payloadJobID = jobID, payloadCreatedAt = now, payloadParams = params\<rparr>
          in case marshalPayload cd payload of
               None \<Rightarrow> (\<lparr>code = 500, body = errorBody ''failed to marshal job payload''\<rparr>, r)
             | Some payloadBytes \<Rightarrow>
                 (case RPush RedisJobsList payloadBytes r of
                    (Inl err, r1) \<Rightarrow>
                      (\<lparr>code = 500,
                        body = errorBody (''failed to enqueue job: '' @ Error_msg err)\<rparr>, r1)
                  | (Inr n, r1) \<Rightarrow>
                      (let meta = \<lparr>JobID = jobID, Status = StatusQueued, CreatedAt = now,
                                   UpdatedAt = now, Params = params, Error = [],
                                   ResultKey = RedisResultsPrefix @ jobID\<rparr>;
                           metaBytes = (case marshalMeta cd meta of None \<Rightarrow> [] | Some b \<Rightarrow> b);
                           r2 = snd (Set (RedisJobMetaPrefix @ jobID) metaBytes DefaultResultTTL r1);
                           r4 = pushRecent jobID r2
                       in (\<lparr>code = 202,
                            body = H [(''job_id'', JStr jobID), (''status'', JStr StatusQueued)]\<rparr>,
                           r4)))))"

text \<open>\<open>GET /results/:job_id\<close>\<close>

definition handleGetResult :: "codec \<Rightarrow> string \<Rightarrow> redis \<Rightarrow> response \<times> redis" where
  "handleGetResult cd jobID r =
    (case Get (RedisResultsPrefix @ jobID) r of
       (Inl err, r1) \<Rightarrow>
         (if err = RedisNil then
            (case Get (RedisJobMetaPrefix @ jobID) r1 of
               (Inr metaBytes, r2) \<Rightarrow>
                 (let meta = fst (unmarshalMeta cd metaBytes)
                  in (\<lparr>code = 200,
                       body = H [(''job_id'', JStr jobID), (''status'', JStr (Status meta))]\<rparr>, r2))
             | (Inl err2, r2) \<Rightarrow>
                 (\<lparr>code = 404, body = errorBody ''no result or job not found''\<rparr>, r2))
          else (\<lparr>code = 500, body = errorBody (''redis error: '' @ Error_msg err)\<rparr>, r1))
     | (Inr res, r1) \<Rightarrow>
         (case unmarshalAny cd res of
            Some parsed \<Rightarrow>
              (\<lparr>code = 200,
                body = H [(''job_id'', JStr jobID), (''status'', JStr StatusDone),
                          (''result'', parsed)]\<rparr>, r1)
          | None \<Rightarrow>
              (\<lparr>code = 200,
                body = H [(''job_id'', JStr jobID), (''status'', JStr StatusDone),
                          (''result'', JStr res)]\<rparr>, r1)))"

text \<open>
  \<open>GET /results\<close>. When the call fails with \<open>redis.Nil\<close> the slice \<open>ids\<close> is nil and
  is encoded as \<open>null\<close>.
\<close>

definition handleListResults :: "redis \<Rightarrow> response \<times> redis" where
  "handleListResults r =
    (case LRange RedisRecentJobsList 0 49 r of
       (Inl err, r1) \<Rightarrow>
         (if err \<noteq> RedisNil
          then (\<lparr>code = 500, body = errorBody (''redis error: '' @ Error_msg err)\<rparr>, r1)
          else (\<lparr>code = 200, body = H [(''recent_job_ids'', JNull)]\<rparr>, r1))
     | (Inr ids, r1) \<Rightarrow>
         (\<lparr>code = 200, body = H [(''recent_job_ids'', JArr (map JStr ids))]\<rparr>, r1))"

text \<open>\<open>GET /jobs/:job_id\<close>\<close>

definition handleGetJob :: "codec \<Rightarrow> string \<Rightarrow> redis \<Rightarrow> response \<times> redis" where
  "handleGetJob cd jobID r =
    (case Get (RedisJobMetaPrefix @ jobID) r of
       (Inl err, r1) \<Rightarrow>
         (if err = RedisNil
          then (\<lparr>code = 404, body = errorBody ''job not found''\<rparr>, r1)
          else (\<lparr>code = 500, body = errorBody (''redis error: '' @ Error_msg err)\<rparr>, r1))
     | (Inr metaStr, r1) \<Rightarrow>
         (case unmarshalMeta cd metaStr of
            (meta, Some err) \<Rightarrow>
              (\<lparr>code = 500, body = errorBody ''failed to parse job meta''\<rparr>, r1)
          | (meta, None) \<Rightarrow> (\<lparr>code = 200, body = MetaBody meta\<rparr>, r1)))"

section \<open>Sequences of submissions and the recency index\<close>

text \<open>
  A submission is a request body together with the identifier and the instant
  drawn for it. \<open>submitAll\<close> serves the submissions one after the other, the
  first of the list first, and returns the store afterwards.
\<close>

type_synonym submission = "string \<times> string \<times> time"

fun submitAll :: "codec \<Rightarrow> submission list \<Rightarrow> redis \<Rightarrow> redis" where
  "submitAll cd [] r = r"
| "submitAll cd ((reqBody, jobID, now) # qs) r =
     submitAll cd qs (snd (handleSimulate cd reqBody jobID now r))"

definition jobIDs :: "submission list \<Rightarrow> string list" where
  "jobIDs qs = map (\<lambda>(reqBody, jobID, now). jobID) qs"

text \<open>
  A submission is decodable when its body binds and the payload built from it
  marshals: the submission then reaches the store.
\<close>

fun decodable :: "codec \<Rightarrow> submission \<Rightarrow> bool" where
  "decodable cd (reqBody, jobID, now) =
     (case bindJSON cd reqBody of
        Inl err \<Rightarrow> False
      | Inr params0 \<Rightarrow>
          marshalPayload cd \<lparr>payloadJobID = jobID, payloadCreatedAt = now,
                             payloadParams = applyDefaults params0\<rparr> \<noteq> None)"

text \<open>The identifiers that the recency index holds, head first.\<close>

definition recentIDs :: "redis \<Rightarrow> string list" where
  "recentIDs r = (case kv r RedisRecentJobsList of Some (RList xs) \<Rightarrow> xs | _ \<Rightarrow> [])"

text \<open>A key is free for a list when it holds no string.\<close>

definition listKey :: "redis \<Rightarrow> string \<Rightarrow> bool" where
  "listKey r k = (case kv r k of Some (RString s t) \<Rightarrow> False | _ \<Rightarrow> True)"

section \<open>Concrete requests and stores\<close>

text \<open>The zero value of \<open>SimulationParams\<close>: the decoded body \<open>{}\<close>.\<close>

definition zeroParams :: SimulationParams where
  "zeroParams =
    \<lparr>ThermalMass = None, ThermalMassKg = None, CpMass = None, VentilationRate = None,
     U_day = None, U_night = None, A_glass = None, tau_glass = None, ACH = None,
     Volume = None, C = None, T_init = None, Setpoint = None, Lat = None, Lon = None,
     StartDate = [], EndDate = [], HeaterMaxW = None, EvapRate = None,
     FractionSolarAir = None\<rparr>"

text \<open>The request of \<open>TestSubmitJob\<close>: only the site and the dates are given.\<close>

definition chicagoParams :: SimulationParams where
  "chicagoParams =
    zeroParams\<lparr>Lat := Some 41.8781, Lon := Some (- 87.6298),
               StartDate := ''2025-11-01'', EndDate := ''2025-11-02''\<rparr>"

text \<open>A request that gives the mass in kilograms and no direct capacity.\<close>

definition massKgParams :: SimulationParams where
  "massKgParams = zeroParams\<lparr>ThermalMassKg := Some 1000\<rparr>"

text \<open>A request that sets every field, to values that differ from the defaults.\<close>

definition fullParams :: SimulationParams where
  "fullParams =
    \<lparr>ThermalMass = Some 1, ThermalMassKg = Some 2, CpMass = Some 3, VentilationRate = Some 4,
     U_day = Some 5, U_night = Some 6, A_glass = Some 75, tau_glass = Some 8, ACH = Some 9,
     Volume = Some 10, C = Some 11, T_init = Some 0, Setpoint = Some 13, Lat = Some 14,
     Lon = Some 15, StartDate = ''2025-01-01'', EndDate = ''2025-01-02'',
     HeaterMaxW = Some 16, EvapRate = Some 17, FractionSolarAir = Some 18\<rparr>"

text \<open>
  A small codec to run the handlers on concrete requests: the body \<open>{}\<close>
  binds to the zero record, records are encoded by their identifier, the one
  metadata document and the one result document used below are decoded, and any
  other text is rejected.
\<close>

definition queuedMeta :: JobMeta where
  "queuedMeta =
    \<lparr>JobID = ''j1'', Status = ''queued'', CreatedAt = 7, UpdatedAt = 7,
     Params = applyDefaults zeroParams, Error = [], ResultKey = ''job_result:j1''\<rparr>"

definition zeroMeta :: JobMeta where
  "zeroMeta =
    \<lparr>JobID = [], Status = [], CreatedAt = 0, UpdatedAt = 0, Params = zeroParams,
     Error = [], ResultKey = []\<rparr>"

definition sampleCodec :: codec where
  "sampleCodec =
    \<lparr>bindJSON = (\<lambda>s. if s = ''{}'' then Inr zeroParams
                       else Inl ''unexpected end of JSON input''),
     marshalPayload = (\<lambda>p. Some (''payload:'' @ payloadJobID p)),
     marshalMeta = (\<lambda>m. Some (''meta:'' @ JobMeta.JobID m)),
     unmarshalMeta = (\<lambda>s. if s = ''meta:j1'' then (queuedMeta, None)
                            else (zeroMeta, Some ''invalid character'')),
     unmarshalAny = (\<lambda>s. if s = ''[]'' then Some (JArr []) else None)\<rparr>"

definition emptyRedis :: redis where
  "emptyRedis = \<lparr>kv = Map.empty, faults = [], issued = []\<rparr>"

text \<open>Stores for the result query of job \<open>j1\<close>.\<close>

definition resultRedis :: redis where
  "resultRedis =
    emptyRedis\<lparr>kv := [''job_meta:j1'' \<mapsto> RString ''meta:j1'' DefaultResultTTL,
                       ''job_result:j1'' \<mapsto> RString ''[]'' DefaultResultTTL]\<rparr>"

definition plainResultRedis :: redis where
  "plainResultRedis =
    emptyRedis\<lparr>kv := [''job_result:j1'' \<mapsto> RString ''finished'' DefaultResultTTL]\<rparr>"

definition metaRedis :: redis where
  "metaRedis = emptyRedis\<lparr>kv := [''job_meta:j1'' \<mapsto> RString ''meta:j1'' DefaultResultTTL]\<rparr>"

definition brokenMetaRedis :: redis where
  "brokenMetaRedis =
    emptyRedis\<lparr>kv := [''job_meta:j1'' \<mapsto> RString ''{'' DefaultResultTTL]\<rparr>"

text \<open>
  The metadata of \<open>j1\<close> is stored and there is no result; the first command
  succeeds and the second one times out.
\<close>

definition metaReadFailsRedis :: redis where
  "metaReadFailsRedis = metaRedis\<lparr>faults := [None, Some ''i/o timeout'']\<rparr>"

text \<open>Stores for a submission: the first command fails, or the second and the third.\<close>

definition enqueueFailsRedis :: redis where
  "enqueueFailsRedis = emptyRedis\<lparr>faults := [Some ''connection refused'']\<rparr>"

definition bestEffortFailsRedis :: redis where
  "bestEffortFailsRedis = emptyRedis\<lparr>faults := [None, Some ''i/o timeout'', Some ''i/o timeout'']\<rparr>"

text \<open>
  A recency index at its capacity, and the same store when the fourth command
  of the next request (the trim) times out.
\<close>

definition jobName :: "nat \<Rightarrow> string" where
  "jobName i = ''job-'' @ replicate i (CHR ''i'')"

definition fullIndexRedis :: redis where
  "fullIndexRedis =
    emptyRedis\<lparr>kv := [''recent_simulation_ids'' \<mapsto> RList (map jobName [0..<100])]\<rparr>"

definition trimFailsRedis :: redis where
  "trimFailsRedis = fullIndexRedis\<lparr>faults := [None, None, None, Some ''i/o timeout'']\<rparr>"

text \<open>One submission more than the capacity of the index, every one with the body \<open>{}\<close>.\<close>

definition submissionOf :: "nat \<Rightarrow> submission" where
  "submissionOf i = (''{}'', jobName i, i)"

definition manySubmissions :: "submission list" where
  "manySubmissions = map submissionOf [0..<101]"

section \<open>Default-filling\<close>

text \<open>
  Each statement of \<open>applyDefaults\<close> tests one field and assigns that field
  only, so the chain of twelve conditional updates is one update of the
  twelve fields, each computed from the submitted record.
\<close>

lemma applyDefaults_fields:
  "applyDefaults p = p\<lparr>
      A_glass := (if A_glass p = None then Some 50 else A_glass p),
      tau_glass := (if tau_glass p = None then Some 0.85 else tau_glass p),
      U_day := (if U_day p = None then Some 3 else U_day p),
      U_night := (if U_night p = None then Some 0.6 else U_night p),
      ACH := (if ACH p = None then Some 0.5 else ACH p),
      Volume := (if Volume p = None then Some 100 else Volume p),
      C := (if C p = None \<and> ThermalMassKg p = None then Some 20000000 else C p),
      CpMass := (if CpMass p = None then Some 4186 else CpMass p),
      T_init := (if T_init p = None then Some 15 else T_init p),
      Setpoint := (if Setpoint p = None then Some 12 else Setpoint p),
      HeaterMaxW := (if HeaterMaxW p = None then Some 5000 else HeaterMaxW p),
      FractionSolarAir :=
        (if FractionSolarAir p = None then Some 0.5 else FractionSolarAir p)\<rparr>"
proof -
  have upd:
    "\<And>c (q::SimulationParams) x.
       (if c then q\<lparr>A_glass := x\<rparr> else q) = q\<lparr>A_glass := (if c then x else A_glass q)\<rparr>"
    "\<And>c (q::SimulationParams) x.
       (if c then q\<lparr>tau_glass := x\<rparr> else q) = q\<lparr>tau_glass := (if c then x else tau_glass q)\<rparr>"
    "\<And>c (q::SimulationParams) x.
       (if c then q\<lparr>U_day := x\<rparr> else q) = q\<lparr>U_day := (if c then x else U_day q)\<rparr>"
    "\<And>c (q::SimulationParams) x.
       (if c then q\<lparr>U_night := x\<rparr> else q) = q\<lparr>U_night := (if c then x else U_night q)\<rparr>"
    "\<And>c (q::SimulationParams) x.
       (if c then q\<lparr>ACH := x\<rparr> else q) = q\<lparr>ACH := (if c then x else ACH q)\<rparr>"
    "\<And>c (q::SimulationParams) x.
       (if c then q\<lparr>Volume := x\<rparr> else q) = q\<lparr>Volume := (if c then x else Volume q)\<rparr>"
    "\<And>c (q::SimulationParams) x.
       (if c then q\<lparr>C := x\<rparr> else q) = q\<lparr>C := (if c then x else C q)\<rparr>"
    "\<And>c (q::SimulationParams) x.
       (if c then q\<lparr>CpMass := x\<rparr> else q) = q\<lparr>CpMass := (if c then x else CpMass q)\<rparr>"
    "\<And>c (q::SimulationParams) x.
       (if c then q\<lparr>T_init := x\<rparr> else q) = q\<lparr>T_init := (if c then x else T_init q)\<rparr>"
    "\<And>c (q::SimulationParams) x.
       (if c then q\<lparr>Setpoint := x\<rparr> else q) = q\<lparr>Setpoint := (if c then x else Setpoint q)\<rparr>"
    "\<And>c (q::SimulationParams) x.
       (if c then q\<lparr>HeaterMaxW := x\<rparr> else q) = q\<lparr>HeaterMaxW := (if c then x else HeaterMaxW q)\<rparr>"
    "\<And>c (q::SimulationParams) x.
       (if c then q\<lparr>FractionSolarAir := x\<rparr> else q) = q\<lparr>FractionSolarAir := (if c then x else FractionSolarAir q)\<rparr>"
    by simp_all
  show ?thesis
    unfolding applyDefaults_def
    by (simp add: upd Let_def cong: if_cong)
qed

lemma applyDefaults_sel:
  "A_glass (applyDefaults p) = (if A_glass p = None then Some 50 else A_glass p)"
  "tau_glass (applyDefaults p) = (if tau_glass p = None then Some 0.85 else tau_glass p)"
  "U_day (applyDefaults p) = (if U_day p = None then Some 3 else U_day p)"
  "U_night (applyDefaults p) = (if U_night p = None then Some 0.6 else U_night p)"
  "ACH (applyDefaults p) = (if ACH p = None then Some 0.5 else ACH p)"
  "Volume (applyDefaults p) = (if Volume p = None then Some 100 else Volume p)"
  "C (applyDefaults p)
     = (if C p = None \<and> ThermalMassKg p = None then Some 20000000 else C p)"
  "CpMass (applyDefaults p) = (if CpMass p = None then Some 4186 else CpMass p)"
  "T_init (applyDefaults p) = (if T_init p = None then Some 15 else T_init p)"
  "Setpoint (applyDefaults p) = (if Setpoint p = None then Some 12 else Setpoint p)"
  "HeaterMaxW (applyDefaults p) = (if HeaterMaxW p = None then Some 5000 else HeaterMaxW p)"
  "FractionSolarAir (applyDefaults p)
     = (if FractionSolarAir p = None then Some 0.5 else FractionSolarAir p)"
  "ThermalMass (applyDefaults p) = ThermalMass p"
  "ThermalMassKg (applyDefaults p) = ThermalMassKg p"
  "VentilationRate (applyDefaults p) = VentilationRate p"
  "EvapRate (applyDefaults p) = EvapRate p"
  "Lat (applyDefaults p) = Lat p"
  "Lon (applyDefaults p) = Lon p"
  "StartDate (applyDefaults p) = StartDate p"
  "EndDate (applyDefaults p) = EndDate p"
  "SimulationParams.more (applyDefaults p) = SimulationParams.more p"
  by (simp_all add: applyDefaults_fields)

lemma zeroParams_sel:
  "ThermalMass zeroParams = None" "ThermalMassKg zeroParams = None" "CpMass zeroParams = None"
  "VentilationRate zeroParams = None" "U_day zeroParams = None" "U_night zeroParams = None"
  "A_glass zeroParams = None" "tau_glass zeroParams = None" "ACH zeroParams = None"
  "Volume zeroParams = None" "C zeroParams = None" "T_init zeroParams = None"
  "Setpoint zeroParams = None" "Lat zeroParams = None" "Lon zeroParams = None"
  "StartDate zeroParams = []" "EndDate zeroParams = []" "HeaterMaxW zeroParams = None"
  "EvapRate zeroParams = None" "FractionSolarAir zeroParams = None"
  by (simp_all add: zeroParams_def)

lemma fullParams_sel:
  "ThermalMass fullParams = Some 1" "ThermalMassKg fullParams = Some 2"
  "CpMass fullParams = Some 3" "VentilationRate fullParams = Some 4"
  "U_day fullParams = Some 5" "U_night fullParams = Some 6" "A_glass fullParams = Some 75"
  "tau_glass fullParams = Some 8" "ACH fullParams = Some 9" "Volume fullParams = Some 10"
  "C fullParams = Some 11" "T_init fullParams = Some 0" "Setpoint fullParams = Some 13"
  "Lat fullParams = Some 14" "Lon fullParams = Some 15"
  "StartDate fullParams = ''2025-01-01''" "EndDate fullParams = ''2025-01-02''"
  "HeaterMaxW fullParams = Some 16" "EvapRate fullParams = Some 17"
  "FractionSolarAir fullParams = Some 18"
  by (simp_all add: fullParams_def)

lemma applyDefaults_twice: "applyDefaults (applyDefaults p) = applyDefaults p"
  by (rule SimulationParams.equality) (simp_all add: applyDefaults_sel)

text \<open>
  Claim C5, as the code has it. \<open>applyDefaults\<close> is a total function of the
  submitted record. It never changes a field that the caller set. Of the unset
  fields it fills \<open>A_glass\<close>, \<open>tau_glass\<close>, \<open>U_day\<close>, \<open>U_night\<close>, \<open>ACH\<close>, \<open>V\<close>,
  \<open>cp_mass\<close>, \<open>T_init\<close>, \<open>setpoint\<close>, \<open>heater_max_w\<close> and
  \<open>fraction_solar_to_air\<close> with a fixed default each, and \<open>C\<close> with \<open>2e7\<close> when
  \<open>thermal_mass_kg\<close> is unset as well; \<open>thermal_mass\<close>, \<open>thermal_mass_kg\<close>,
  \<open>ventilation_rate\<close>, \<open>evap_rate\<close>, \<open>lat\<close>, \<open>lon\<close>, \<open>start_date\<close> and \<open>end_date\<close>
  stay as submitted. For the request with only \<open>lat\<close>, \<open>lon\<close>, \<open>start_date\<close> and
  \<open>end_date\<close> set, \<open>lat\<close> is \<open>41.8781\<close> afterwards, \<open>A_glass\<close> is \<open>50.0\<close>, \<open>U_day\<close>
  is \<open>3.0\<close> and \<open>ACH\<close> is \<open>0.5\<close>.
\<close>

theorem applyDefaults_fills_defaulted_fields:
  "A_glass (applyDefaults p) = Some (case A_glass p of None \<Rightarrow> 50 | Some v \<Rightarrow> v)
   \<and> tau_glass (applyDefaults p) = Some (case tau_glass p of None \<Rightarrow> 0.85 | Some v \<Rightarrow> v)
   \<and> U_day (applyDefaults p) = Some (case U_day p of None \<Rightarrow> 3 | Some v \<Rightarrow> v)
   \<and> U_night (applyDefaults p) = Some (case U_night p of None \<Rightarrow> 0.6 | Some v \<Rightarrow> v)
   \<and> ACH (applyDefaults p) = Some (case ACH p of None \<Rightarrow> 0.5 | Some v \<Rightarrow> v)
   \<and> Volume (applyDefaults p) = Some (case Volume p of None \<Rightarrow> 100 | Some v \<Rightarrow> v)
   \<and> CpMass (applyDefaults p) = Some (case CpMass p of None \<Rightarrow> 4186 | Some v \<Rightarrow> v)
   \<and> T_init (applyDefaults p) = Some (case T_init p of None \<Rightarrow> 15 | Some v \<Rightarrow> v)
   \<and> Setpoint (applyDefaults p) = Some (case Setpoint p of None \<Rightarrow> 12 | Some v \<Rightarrow> v)
   \<and> HeaterMaxW (applyDefaults p) = Some (case HeaterMaxW p of None \<Rightarrow> 5000 | Some v \<Rightarrow> v)
   \<and> FractionSolarAir (applyDefaults p)
       = Some (case FractionSolarAir p of None \<Rightarrow> 0.5 | Some v \<Rightarrow> v)
   \<and> C (applyDefaults p)
       = (case C p of
            Some v \<Rightarrow> Some v
          | None \<Rightarrow> (case ThermalMassKg p of None \<Rightarrow> Some 20000000 | Some m \<Rightarrow> None))
   \<and> ThermalMass (applyDefaults p) = ThermalMass p
   \<and> ThermalMassKg (applyDefaults p) = ThermalMassKg p
   \<and> VentilationRate (applyDefaults p) = VentilationRate p
   \<and> EvapRate (applyDefaults p) = EvapRate p
   \<and> Lat (applyDefaults p) = Lat p
   \<and> Lon (applyDefaults p) = Lon p
   \<and> StartDate (applyDefaults p) = StartDate p
   \<and> EndDate (applyDefaults p) = EndDate p
   \<and> Lat (applyDefaults chicagoParams) = Some 41.8781
   \<and> A_glass (applyDefaults chicagoParams) = Some 50
   \<and> U_day (applyDefaults chicagoParams) = Some 3
   \<and> ACH (applyDefaults chicagoParams) = Some 0.5"
proof -
  have fill: "\<And>(x::real option) d.
      (if x = None then Some d else x) = Some (case x of None \<Rightarrow> d | Some v \<Rightarrow> v)"
    by (simp split: option.split)
  have fillC: "\<And>(c::real option) (m::real option) d.
      (if c = None \<and> m = None then Some d else c)
        = (case c of Some v \<Rightarrow> Some v
           | None \<Rightarrow> (case m of None \<Rightarrow> Some d | Some k \<Rightarrow> None))"
    by (simp split: option.split)
  show ?thesis
    by (simp add: applyDefaults_sel fill fillC chicagoParams_def zeroParams_sel)
qed

text \<open>
  Claim C5 as stated has every unset field filled. The request of the claim
  leaves \<open>thermal_mass\<close> unset, and it is still unset after default-filling.
\<close>

theorem applyDefaults_leaves_thermal_mass_unset:
  "ThermalMass chicagoParams = None \<and> ThermalMass (applyDefaults chicagoParams) = None"
  by (simp add: applyDefaults_sel chicagoParams_def zeroParams_sel)

text \<open>
  Claim C6. Default-filling is idempotent: applied twice it yields the record
  that one application yields. It is non-destructive: a field that is set in
  the submitted record (a non-nil pointer, a non-empty date) has the same
  value afterwards.
\<close>

theorem applyDefaults_idempotent_nondestructive:
  "applyDefaults (applyDefaults p) = applyDefaults p
   \<and> (ThermalMass p \<noteq> None \<longrightarrow> ThermalMass (applyDefaults p) = ThermalMass p)
   \<and> (ThermalMassKg p \<noteq> None \<longrightarrow> ThermalMassKg (applyDefaults p) = ThermalMassKg p)
   \<and> (CpMass p \<noteq> None \<longrightarrow> CpMass (applyDefaults p) = CpMass p)
   \<and> (VentilationRate p \<noteq> None \<longrightarrow> VentilationRate (applyDefaults p) = VentilationRate p)
   \<and> (U_day p \<noteq> None \<longrightarrow> U_day (applyDefaults p) = U_day p)
   \<and> (U_night p \<noteq> None \<longrightarrow> U_night (applyDefaults p) = U_night p)
   \<and> (A_glass p \<noteq> None \<longrightarrow> A_glass (applyDefaults p) = A_glass p)
   \<and> (tau_glass p \<noteq> None \<longrightarrow> tau_glass (applyDefaults p) = tau_glass p)
   \<and> (ACH p \<noteq> None \<longrightarrow> ACH (applyDefaults p) = ACH p)
   \<and> (Volume p \<noteq> None \<longrightarrow> Volume (applyDefaults p) = Volume p)
   \<and> (C p \<noteq> None \<longrightarrow> C (applyDefaults p) = C p)
   \<and> (T_init p \<noteq> None \<longrightarrow> T_init (applyDefaults p) = T_init p)
   \<and> (Setpoint p \<noteq> None \<longrightarrow> Setpoint (applyDefaults p) = Setpoint p)
   \<and> (Lat p \<noteq> None \<longrightarrow> Lat (applyDefaults p) = Lat p)
   \<and> (Lon p \<noteq> None \<longrightarrow> Lon (applyDefaults p) = Lon p)
   \<and> (StartDate p \<noteq> [] \<longrightarrow> StartDate (applyDefaults p) = StartDate p)
   \<and> (EndDate p \<noteq> [] \<longrightarrow> EndDate (applyDefaults p) = EndDate p)
   \<and> (HeaterMaxW p \<noteq> None \<longrightarrow> HeaterMaxW (applyDefaults p) = HeaterMaxW p)
   \<and> (EvapRate p \<noteq> None \<longrightarrow> EvapRate (applyDefaults p) = EvapRate p)
   \<and> (FractionSolarAir p \<noteq> None \<longrightarrow> FractionSolarAir (applyDefaults p) = FractionSolarAir p)"
proof -
  have "applyDefaults (applyDefaults p) = applyDefaults p"
    by (rule applyDefaults_twice)
  then show ?thesis
    by (simp add: applyDefaults_sel)
qed

theorem applyDefaults_idempotent_nondestructive_witness:
  "applyDefaults (applyDefaults fullParams) = applyDefaults fullParams
   \<and> A_glass (applyDefaults fullParams) = Some 75
   \<and> T_init (applyDefaults fullParams) = Some 0
   \<and> ThermalMass fullParams \<noteq> None \<and> ThermalMass (applyDefaults fullParams) = ThermalMass fullParams
   \<and> ThermalMassKg fullParams \<noteq> None \<and> ThermalMassKg (applyDefaults fullParams) = ThermalMassKg fullParams
   \<and> CpMass fullParams \<noteq> None \<and> CpMass (applyDefaults fullParams) = CpMass fullParams
   \<and> VentilationRate fullParams \<noteq> None \<and> VentilationRate (applyDefaults fullParams) = VentilationRate fullParams
   \<and> U_day fullParams \<noteq> None \<and> U_day (applyDefaults fullParams) = U_day fullParams
   \<and> U_night fullParams \<noteq> None \<and> U_night (applyDefaults fullParams) = U_night fullParams
   \<and> A_glass fullParams \<noteq> None \<and> A_glass (applyDefaults fullParams) = A_glass fullParams
   \<and> tau_glass fullParams \<noteq> None \<and> tau_glass (applyDefaults fullParams) = tau_glass fullParams
   \<and> ACH fullParams \<noteq> None \<and> ACH (applyDefaults fullParams) = ACH fullParams
   \<and> Volume fullParams \<noteq> None \<and> Volume (applyDefaults fullParams) = Volume fullParams
   \<and> C fullParams \<noteq> None \<and> C (applyDefaults fullParams) = C fullParams
   \<and> T_init fullParams \<noteq> None \<and> T_init (applyDefaults fullParams) = T_init fullParams
   \<and> Setpoint fullParams \<noteq> None \<and> Setpoint (applyDefaults fullParams) = Setpoint fullParams
   \<and> Lat fullParams \<noteq> None \<and> Lat (applyDefaults fullParams) = Lat fullParams
   \<and> Lon fullParams \<noteq> None \<and> Lon (applyDefaults fullParams) = Lon fullParams
   \<and> StartDate fullParams \<noteq> [] \<and> StartDate (applyDefaults fullParams) = StartDate fullParams
   \<and> EndDate fullParams \<noteq> [] \<and> EndDate (applyDefaults fullParams) = EndDate fullParams
   \<and> HeaterMaxW fullParams \<noteq> None \<and> HeaterMaxW (applyDefaults fullParams) = HeaterMaxW fullParams
   \<and> EvapRate fullParams \<noteq> None \<and> EvapRate (applyDefaults fullParams) = EvapRate fullParams
   \<and> FractionSolarAir fullParams \<noteq> None \<and> FractionSolarAir (applyDefaults fullParams) = FractionSolarAir fullParams"
  using applyDefaults_idempotent_nondestructive [of fullParams]
  by (simp add: fullParams_sel)

text \<open>
  Claim C9. The field \<open>C\<close> receives its default \<open>2e7\<close> only when both \<open>C\<close> and
  \<open>thermal_mass_kg\<close> are unset: in every other case \<open>C\<close> is what was submitted,
  so with \<open>thermal_mass_kg\<close> supplied and \<open>C\<close> not, \<open>C\<close> is still unset. The fields
  \<open>thermal_mass\<close>, \<open>thermal_mass_kg\<close>, \<open>ventilation_rate\<close>, \<open>evap_rate\<close>, \<open>lat\<close>,
  \<open>lon\<close>, \<open>start_date\<close> and \<open>end_date\<close> are never assigned.
\<close>

theorem applyDefaults_C_and_undefaulted_fields:
  "(C p = None \<and> ThermalMassKg p = None \<longrightarrow> C (applyDefaults p) = Some 20000000)
   \<and> (\<not> (C p = None \<and> ThermalMassKg p = None) \<longrightarrow> C (applyDefaults p) = C p)
   \<and> (C p = None \<and> ThermalMassKg p \<noteq> None \<longrightarrow> C (applyDefaults p) = None)
   \<and> ThermalMass (applyDefaults p) = ThermalMass p
   \<and> ThermalMassKg (applyDefaults p) = ThermalMassKg p
   \<and> VentilationRate (applyDefaults p) = VentilationRate p
   \<and> EvapRate (applyDefaults p) = EvapRate p
   \<and> Lat (applyDefaults p) = Lat p
   \<and> Lon (applyDefaults p) = Lon p
   \<and> StartDate (applyDefaults p) = StartDate p
   \<and> EndDate (applyDefaults p) = EndDate p"
  by (simp add: applyDefaults_sel)

theorem applyDefaults_C_and_undefaulted_fields_witness:
  "C zeroParams = None \<and> ThermalMassKg zeroParams = None
   \<and> C (applyDefaults zeroParams) = Some 20000000
   \<and> \<not> (C massKgParams = None \<and> ThermalMassKg massKgParams = None)
   \<and> C (applyDefaults massKgParams) = C massKgParams
   \<and> C massKgParams = None \<and> ThermalMassKg massKgParams \<noteq> None
   \<and> C (applyDefaults massKgParams) = None
   \<and> ThermalMass (applyDefaults zeroParams) = None
   \<and> Lat (applyDefaults zeroParams) = None
   \<and> StartDate (applyDefaults zeroParams) = []"
  using applyDefaults_C_and_undefaulted_fields [of zeroParams]
    applyDefaults_C_and_undefaulted_fields [of massKgParams]
  by (simp add: zeroParams_sel massKgParams_def)

section \<open>The store commands\<close>

lemma sent_simps [simp]:
  "kv (sent c r) = kv r"
  "faults (sent c r) = tl (faults r)"
  "issued (sent c r) = issued r @ [c]"
  by (simp_all add: sent_def)

lemma fault_at_0: "fault_at r 0 = next_fault r"
  by (cases "faults r") (simp_all add: fault_at_def next_fault_def)

lemma fault_at_tl: "faults r' = tl (faults r) \<Longrightarrow> fault_at r' i = fault_at r (Suc i)"
  by (cases "faults r") (simp_all add: fault_at_def)

lemma RPush_faults: "faults (snd (RPush k v r)) = tl (faults r)"
  by (simp add: RPush_def Let_def split: option.split rval.split)
lemma Set_faults: "faults (snd (Set k v t r)) = tl (faults r)"
  by (simp add: Set_def Let_def split: option.split rval.split)

lemma RPush_kv_other: "k' \<noteq> k \<Longrightarrow> kv (snd (RPush k v r)) k' = kv r k'"
  by (simp add: RPush_def Let_def split: option.split rval.split)
lemma Set_kv_other: "k' \<noteq> k \<Longrightarrow> kv (snd (Set k v t r)) k' = kv r k'"
  by (simp add: Set_def Let_def split: option.split rval.split)

lemma RPush_error:
  "fst (RPush k v r) = Inl e \<Longrightarrow> snd (RPush k v r) = sent (RPUSH k v) r"
  by (simp add: RPush_def Let_def split: option.splits rval.splits)

lemma RPush_ok: "next_fault r = None \<Longrightarrow> listKey r k \<Longrightarrow> \<exists>n. fst (RPush k v r) = Inr n"
  by (simp add: RPush_def listKey_def Let_def split: option.splits rval.splits)

lemma RPush_listKey: "listKey r k' \<Longrightarrow> listKey (snd (RPush k v r)) k'"
  by (auto simp add: RPush_def listKey_def Let_def split: option.splits rval.splits)

lemma lrange_of_prefix: "0 \<le> n \<Longrightarrow> lrange_of 0 n xs = take (nat n + 1) xs"
  by (cases xs) (auto simp add: lrange_of_def Let_def min_def nat_add_distrib)

section \<open>Submission\<close>

text \<open>
  Claim C1. When the request binds, the payload marshals and the push of the
  payload onto the job queue returns an error, \<open>POST /simulate\<close> answers 500 with
  the error of the push, the store holds what it held before (no metadata
  record, no entry of the recency index is written) and the push is the only
  command that was sent.
\<close>

theorem simulate_enqueue_failure_aborts:
  assumes "bindJSON cd reqBody = Inr params0"
    and "marshalPayload cd \<lparr>payloadJobID = jobID, payloadCreatedAt = now,
                             payloadParams = applyDefaults params0\<rparr> = Some payloadBytes"
    and "fst (RPush RedisJobsList payloadBytes r) = Inl err"
  shows "fst (handleSimulate cd reqBody jobID now r)
           = \<lparr>code = 500, body = errorBody (''failed to enqueue job: '' @ Error_msg err)\<rparr>
         \<and> kv (snd (handleSimulate cd reqBody jobID now r)) = kv r
         \<and> issued (snd (handleSimulate cd reqBody jobID now r))
             = issued r @ [RPUSH RedisJobsList payloadBytes]"
proof -
  have "RPush RedisJobsList payloadBytes r = (Inl err, sent (RPUSH RedisJobsList payloadBytes) r)"
    using assms(3) RPush_error [OF assms(3)] by (simp add: prod_eq_iff)
  then show ?thesis
    using assms(1,2) by (simp add: handleSimulate_def Let_def)
qed

text \<open>The store refuses the connection on the first command.\<close>

theorem simulate_enqueue_failure_aborts_witness:
  "bindJSON sampleCodec ''{}'' = Inr zeroParams
   \<and> marshalPayload sampleCodec \<lparr>payloadJobID = ''j1'', payloadCreatedAt = 7,
                                  payloadParams = applyDefaults zeroParams\<rparr> = Some ''payload:j1''
   \<and> fst (RPush RedisJobsList ''payload:j1'' enqueueFailsRedis)
       = Inl (RedisError ''connection refused'')
   \<and> fst (handleSimulate sampleCodec ''{}'' ''j1'' 7 enqueueFailsRedis)
       = \<lparr>code = 500,
          body = H [(''error'', JStr ''failed to enqueue job: connection refused'')]\<rparr>
   \<and> kv (snd (handleSimulate sampleCodec ''{}'' ''j1'' 7 enqueueFailsRedis)) = kv emptyRedis
   \<and> issued (snd (handleSimulate sampleCodec ''{}'' ''j1'' 7 enqueueFailsRedis))
       = [RPUSH ''simulation_jobs'' ''payload:j1'']"
proof -
  have h1: "bindJSON sampleCodec ''{}'' = Inr zeroParams"
    by (simp add: sampleCodec_def)
  have h2: "marshalPayload sampleCodec \<lparr>payloadJobID = ''j1'', payloadCreatedAt = 7,
              payloadParams = applyDefaults zeroParams\<rparr> = Some ''payload:j1''"
    by (simp add: sampleCodec_def)
  have h3: "fst (RPush RedisJobsList ''payload:j1'' enqueueFailsRedis)
              = Inl (RedisError ''connection refused'')"
    by (simp add: RPush_def next_fault_def enqueueFailsRedis_def emptyRedis_def Let_def)
  show ?thesis
    using simulate_enqueue_failure_aborts [OF h1 h2 h3] h1 h2 h3
    by (simp add: errorBody_def enqueueFailsRedis_def emptyRedis_def RedisJobsList_def)
qed

text \<open>
  Claim C2. When the push of the payload onto the job queue succeeds,
  \<open>POST /simulate\<close> answers 202 with the fresh identifier and the status
  \<open>queued\<close>, whatever the store and the schedule of failures are for the
  commands that follow: a failed metadata write or a failed push onto the
  recency index does not change the response.
\<close>

theorem simulate_accepted_despite_later_failures:
  assumes "bindJSON cd reqBody = Inr params0"
    and "marshalPayload cd \<lparr>payloadJobID = jobID, payloadCreatedAt = now,
                             payloadParams = applyDefaults params0\<rparr> = Some payloadBytes"
    and "fst (RPush RedisJobsList payloadBytes r) = Inr n"
  shows "fst (handleSimulate cd reqBody jobID now r)
           = \<lparr>code = 202, body = H [(''job_id'', JStr jobID), (''status'', JStr ''queued'')]\<rparr>"
proof -
  obtain r1 where "RPush RedisJobsList payloadBytes r = (Inr n, r1)"
    using assms(3) by (cases "RPush RedisJobsList payloadBytes r") simp
  then show ?thesis
    using assms(1,2) by (simp add: handleSimulate_def Let_def StatusQueued_def split: prod.split)
qed

text \<open>
  The enqueue succeeds, the metadata write and the push onto the recency index
  both time out: neither record exists afterwards and the answer is still 202.
\<close>

theorem simulate_accepted_despite_later_failures_witness:
  "bindJSON sampleCodec ''{}'' = Inr zeroParams
   \<and> marshalPayload sampleCodec \<lparr>payloadJobID = ''j1'', payloadCreatedAt = 7,
                                  payloadParams = applyDefaults zeroParams\<rparr> = Some ''payload:j1''
   \<and> fst (RPush RedisJobsList ''payload:j1'' bestEffortFailsRedis) = Inr 1
   \<and> fst (Set ''job_meta:j1'' ''meta:j1'' DefaultResultTTL
             (snd (RPush RedisJobsList ''payload:j1'' bestEffortFailsRedis)))
       = Inl (RedisError ''i/o timeout'')
   \<and> kv (snd (handleSimulate sampleCodec ''{}'' ''j1'' 7 bestEffortFailsRedis)) ''job_meta:j1'' = None
   \<and> kv (snd (handleSimulate sampleCodec ''{}'' ''j1'' 7 bestEffortFailsRedis))
        ''recent_simulation_ids'' = None
   \<and> fst (handleSimulate sampleCodec ''{}'' ''j1'' 7 bestEffortFailsRedis)
       = \<lparr>code = 202, body = H [(''job_id'', JStr ''j1''), (''status'', JStr ''queued'')]\<rparr>"
proof -
  have h1: "bindJSON sampleCodec ''{}'' = Inr zeroParams"
    by (simp add: sampleCodec_def)
  have h2: "marshalPayload sampleCodec \<lparr>payloadJobID = ''j1'', payloadCreatedAt = 7,
              payloadParams = applyDefaults zeroParams\<rparr> = Some ''payload:j1''"
    by (simp add: sampleCodec_def)
  have h3: "fst (RPush RedisJobsList ''payload:j1'' bestEffortFailsRedis) = Inr 1"
    by (simp add: RPush_def next_fault_def bestEffortFailsRedis_def emptyRedis_def Let_def)
  have h4: "fst (Set ''job_meta:j1'' ''meta:j1'' DefaultResultTTL
             (snd (RPush RedisJobsList ''payload:j1'' bestEffortFailsRedis)))
       = Inl (RedisError ''i/o timeout'')"
    by (simp add: RPush_def Set_def next_fault_def bestEffortFailsRedis_def emptyRedis_def Let_def)
  have h5: "kv (snd (handleSimulate sampleCodec ''{}'' ''j1'' 7 bestEffortFailsRedis))
      = [''simulation_jobs'' \<mapsto> RList [''payload:j1'']]"
    by (simp add: handleSimulate_def pushRecent_def sampleCodec_def RPush_def Set_def LPush_def next_fault_def
        bestEffortFailsRedis_def emptyRedis_def Let_def RedisJobsList_def RedisJobMetaPrefix_def
        RedisRecentJobsList_def)
  show ?thesis
    using simulate_accepted_despite_later_failures [OF h1 h2 h3] h1 h2 h3 h4 h5
    by simp
qed

section \<open>Result and job queries\<close>

text \<open>
  Claim C3. \<open>GET /results/:job_id\<close> resolves in this order. If the read of the
  result blob returns a value, the answer is 200 with the status \<open>done\<close> and, as
  the result, the blob parsed as JSON, or the raw text if it does not parse. If
  the store has no result blob and the read of the metadata record returns a
  value, the answer is 200 with the \<open>status\<close> field of the decoded record. If the
  store has neither, the answer is 404.
\<close>

theorem result_query_resolution:
  "(fst (Get (RedisResultsPrefix @ jobID) r) = Inr res \<longrightarrow>
      fst (handleGetResult cd jobID r)
        = \<lparr>code = 200,
           body = H [(''job_id'', JStr jobID), (''status'', JStr ''done''),
                     (''result'', case unmarshalAny cd res of Some parsed \<Rightarrow> parsed
                                  | None \<Rightarrow> JStr res)]\<rparr>)
   \<and> (fst (Get (RedisResultsPrefix @ jobID) r) = Inl RedisNil \<longrightarrow>
        fst (Get (RedisJobMetaPrefix @ jobID) (snd (Get (RedisResultsPrefix @ jobID) r)))
          = Inr metaBytes \<longrightarrow>
        fst (handleGetResult cd jobID r)
          = \<lparr>code = 200,
             body = H [(''job_id'', JStr jobID),
                       (''status'', JStr (Status (fst (unmarshalMeta cd metaBytes))))]\<rparr>)
   \<and> (fst (Get (RedisResultsPrefix @ jobID) r) = Inl RedisNil \<longrightarrow>
        fst (Get (RedisJobMetaPrefix @ jobID) (snd (Get (RedisResultsPrefix @ jobID) r)))
          = Inl RedisNil \<longrightarrow>
        fst (handleGetResult cd jobID r)
          = \<lparr>code = 404, body = errorBody ''no result or job not found''\<rparr>)"
proof (intro conjI impI)
  assume "fst (Get (RedisResultsPrefix @ jobID) r) = Inr res"
  then show "fst (handleGetResult cd jobID r)
        = \<lparr>code = 200,
           body = H [(''job_id'', JStr jobID), (''status'', JStr ''done''),
                     (''result'', case unmarshalAny cd res of Some parsed \<Rightarrow> parsed
                                  | None \<Rightarrow> JStr res)]\<rparr>"
    by (cases "Get (RedisResultsPrefix @ jobID) r")
      (simp add: handleGetResult_def StatusDone_def split: option.split)
next
  assume a: "fst (Get (RedisResultsPrefix @ jobID) r) = Inl RedisNil"
    and b: "fst (Get (RedisJobMetaPrefix @ jobID) (snd (Get (RedisResultsPrefix @ jobID) r)))
          = Inr metaBytes"
  obtain r1 where r1: "Get (RedisResultsPrefix @ jobID) r = (Inl RedisNil, r1)"
    using a by (cases "Get (RedisResultsPrefix @ jobID) r") simp
  with b obtain r2 where "Get (RedisJobMetaPrefix @ jobID) r1 = (Inr metaBytes, r2)"
    by (cases "Get (RedisJobMetaPrefix @ jobID) r1") simp
  with r1 show "fst (handleGetResult cd jobID r)
          = \<lparr>code = 200,
             body = H [(''job_id'', JStr jobID),
                       (''status'', JStr (Status (fst (unmarshalMeta cd metaBytes))))]\<rparr>"
    by (simp add: handleGetResult_def Let_def)
next
  assume a: "fst (Get (RedisResultsPrefix @ jobID) r) = Inl RedisNil"
    and b: "fst (Get (RedisJobMetaPrefix @ jobID) (snd (Get (RedisResultsPrefix @ jobID) r)))
          = Inl RedisNil"
  obtain r1 where r1: "Get (RedisResultsPrefix @ jobID) r = (Inl RedisNil, r1)"
    using a by (cases "Get (RedisResultsPrefix @ jobID) r") simp
  with b obtain r2 where "Get (RedisJobMetaPrefix @ jobID) r1 = (Inl RedisNil, r2)"
    by (cases "Get (RedisJobMetaPrefix @ jobID) r1") simp
  with r1 show "fst (handleGetResult cd jobID r)
          = \<lparr>code = 404, body = errorBody ''no result or job not found''\<rparr>"
    by (simp add: handleGetResult_def)
qed

lemma Get_eval:
  "Get k r =
     (case next_fault r of
        Some e \<Rightarrow> (Inl (RedisError e), sent (GET k) r)
      | None \<Rightarrow>
          (case kv r k of
             None \<Rightarrow> (Inl RedisNil, sent (GET k) r)
           | Some (RString s t) \<Rightarrow> (Inr s, sent (GET k) r)
           | Some (RList xs) \<Rightarrow> (Inl (RedisError WRONGTYPE), sent (GET k) r)))"
  by (simp add: Get_def Let_def)

lemma next_fault_simps [simp]:
  "next_fault (r\<lparr>faults := []\<rparr>) = None"
  "next_fault (r\<lparr>faults := f # fs\<rparr>) = f"
  "next_fault emptyRedis = None"
  by (simp_all add: next_fault_def emptyRedis_def)

lemma next_fault_sent: "next_fault (sent c r) = fault_at r 1"
  by (cases "faults r"; cases "tl (faults r)") (simp_all add: next_fault_def fault_at_def)

text \<open>
  A result that parses, a result that does not, a metadata record without a
  result, and an empty store.
\<close>

theorem result_query_resolution_witness:
  "fst (Get (RedisResultsPrefix @ ''j1'') resultRedis) = Inr ''[]''
   \<and> fst (handleGetResult sampleCodec ''j1'' resultRedis)
       = \<lparr>code = 200,
          body = H [(''job_id'', JStr ''j1''), (''status'', JStr ''done''),
                    (''result'', JArr [])]\<rparr>
   \<and> fst (Get (RedisResultsPrefix @ ''j1'') plainResultRedis) = Inr ''finished''
   \<and> fst (handleGetResult sampleCodec ''j1'' plainResultRedis)
       = \<lparr>code = 200,
          body = H [(''job_id'', JStr ''j1''), (''status'', JStr ''done''),
                    (''result'', JStr ''finished'')]\<rparr>
   \<and> fst (Get (RedisResultsPrefix @ ''j1'') metaRedis) = Inl RedisNil
   \<and> fst (Get (RedisJobMetaPrefix @ ''j1'') (snd (Get (RedisResultsPrefix @ ''j1'') metaRedis)))
       = Inr ''meta:j1''
   \<and> fst (handleGetResult sampleCodec ''j1'' metaRedis)
       = \<lparr>code = 200, body = H [(''job_id'', JStr ''j1''), (''status'', JStr ''queued'')]\<rparr>
   \<and> fst (Get (RedisResultsPrefix @ ''j1'') emptyRedis) = Inl RedisNil
   \<and> fst (Get (RedisJobMetaPrefix @ ''j1'') (snd (Get (RedisResultsPrefix @ ''j1'') emptyRedis)))
       = Inl RedisNil
   \<and> fst (handleGetResult sampleCodec ''j1'' emptyRedis)
       = \<lparr>code = 404, body = H [(''error'', JStr ''no result or job not found'')]\<rparr>"
proof -
  have g1: "fst (Get (RedisResultsPrefix @ ''j1'') resultRedis) = Inr ''[]''"
    by (simp add: Get_eval next_fault_def resultRedis_def emptyRedis_def RedisResultsPrefix_def)
  have g2: "fst (Get (RedisResultsPrefix @ ''j1'') plainResultRedis) = Inr ''finished''"
    by (simp add: Get_eval next_fault_def plainResultRedis_def emptyRedis_def RedisResultsPrefix_def)
  have g3: "fst (Get (RedisResultsPrefix @ ''j1'') metaRedis) = Inl RedisNil"
    by (simp add: Get_eval next_fault_def metaRedis_def emptyRedis_def RedisResultsPrefix_def)
  have g4: "fst (Get (RedisJobMetaPrefix @ ''j1'')
               (snd (Get (RedisResultsPrefix @ ''j1'') metaRedis))) = Inr ''meta:j1''"
    by (simp add: Get_eval next_fault_def next_fault_sent fault_at_def metaRedis_def emptyRedis_def
        RedisResultsPrefix_def RedisJobMetaPrefix_def)
  have g5: "fst (Get (RedisResultsPrefix @ ''j1'') emptyRedis) = Inl RedisNil"
    by (simp add: Get_eval next_fault_def emptyRedis_def RedisResultsPrefix_def)
  have g6: "fst (Get (RedisJobMetaPrefix @ ''j1'')
               (snd (Get (RedisResultsPrefix @ ''j1'') emptyRedis))) = Inl RedisNil"
    by (simp add: Get_eval next_fault_def next_fault_sent fault_at_def emptyRedis_def
        RedisResultsPrefix_def RedisJobMetaPrefix_def)
  have c1: "unmarshalAny sampleCodec ''[]'' = Some (JArr [])"
    and c2: "unmarshalAny sampleCodec ''finished'' = None"
    and c3: "Status (fst (unmarshalMeta sampleCodec ''meta:j1'')) = ''queued''"
    by (simp_all add: sampleCodec_def queuedMeta_def)
  show ?thesis
    using result_query_resolution [of "''j1''" resultRedis "''[]''" sampleCodec "''meta:j1''"]
      result_query_resolution [of "''j1''" plainResultRedis "''finished''" sampleCodec "''meta:j1''"]
      result_query_resolution [of "''j1''" metaRedis "''[]''" sampleCodec "''meta:j1''"]
      result_query_resolution [of "''j1''" emptyRedis "''[]''" sampleCodec "''meta:j1''"]
      g1 g2 g3 g4 g5 g6 c1 c2 c3
    by (simp add: errorBody_def)
qed

text \<open>
  Claim C4 requires 500 whenever a read of the store fails with an error other
  than absence, the fallback read of the metadata included, and 404 only when
  neither record is found. The handler tests the error of the first read
  against \<open>redis.Nil\<close>, as \<open>GET /jobs/:job_id\<close> does, but for the fallback read it
  only tests \<open>err2 == nil\<close>. Here the metadata of \<open>j1\<close> is stored, there is no
  result, and the fallback read times out: the answer is 404.
\<close>

theorem result_query_meta_read_error_is_404:
  "kv metaReadFailsRedis (RedisJobMetaPrefix @ ''j1'') = Some (RString ''meta:j1'' DefaultResultTTL)
   \<and> fst (Get (RedisResultsPrefix @ ''j1'') metaReadFailsRedis) = Inl RedisNil
   \<and> fst (Get (RedisJobMetaPrefix @ ''j1'')
            (snd (Get (RedisResultsPrefix @ ''j1'') metaReadFailsRedis)))
       = Inl (RedisError ''i/o timeout'')
   \<and> fst (handleGetResult sampleCodec ''j1'' metaReadFailsRedis)
       = \<lparr>code = 404, body = H [(''error'', JStr ''no result or job not found'')]\<rparr>"
  by (simp add: handleGetResult_def Get_eval next_fault_def next_fault_sent fault_at_def metaReadFailsRedis_def
      metaRedis_def emptyRedis_def RedisResultsPrefix_def RedisJobMetaPrefix_def errorBody_def)

text \<open>
  Claim C10. When the metadata record of a job is read from the store and
  \<open>json.Unmarshal\<close> reports an error for it, \<open>GET /jobs/:job_id\<close> answers 500 with
  an error body: neither the stored record nor 404.
\<close>

theorem job_query_unparsable_meta_is_500:
  assumes "fst (Get (RedisJobMetaPrefix @ jobID) r) = Inr metaStr"
    and "snd (unmarshalMeta cd metaStr) = Some err"
  shows "fst (handleGetJob cd jobID r)
           = \<lparr>code = 500, body = H [(''error'', JStr ''failed to parse job meta'')]\<rparr>"
proof -
  obtain r1 where "Get (RedisJobMetaPrefix @ jobID) r = (Inr metaStr, r1)"
    using assms(1) by (cases "Get (RedisJobMetaPrefix @ jobID) r") simp
  moreover obtain meta where "unmarshalMeta cd metaStr = (meta, Some err)"
    using assms(2) by (cases "unmarshalMeta cd metaStr") simp
  ultimately show ?thesis
    by (simp add: handleGetJob_def errorBody_def)
qed

text \<open>The stored metadata of \<open>j1\<close> is the text \<open>{\<close>.\<close>

theorem job_query_unparsable_meta_is_500_witness:
  "kv brokenMetaRedis (RedisJobMetaPrefix @ ''j1'') = Some (RString ''{'' DefaultResultTTL)
   \<and> fst (Get (RedisJobMetaPrefix @ ''j1'') brokenMetaRedis) = Inr ''{''
   \<and> snd (unmarshalMeta sampleCodec ''{'') = Some ''invalid character''
   \<and> fst (handleGetJob sampleCodec ''j1'' brokenMetaRedis)
       = \<lparr>code = 500, body = H [(''error'', JStr ''failed to parse job meta'')]\<rparr>"
proof -
  have h1: "fst (Get (RedisJobMetaPrefix @ ''j1'') brokenMetaRedis) = Inr ''{''"
    by (simp add: Get_eval next_fault_def brokenMetaRedis_def emptyRedis_def RedisJobMetaPrefix_def)
  have h2: "snd (unmarshalMeta sampleCodec ''{'') = Some ''invalid character''"
    by (simp add: sampleCodec_def)
  show ?thesis
    using job_query_unparsable_meta_is_500 [OF h1 h2] h1 h2
    by (simp add: brokenMetaRedis_def emptyRedis_def RedisJobMetaPrefix_def)
qed

section \<open>The recency index\<close>

lemma key_distinct [simp]:
  "RedisJobMetaPrefix @ j \<noteq> RedisRecentJobsList"
  "RedisJobMetaPrefix @ j \<noteq> RedisJobsList"
  "RedisRecentJobsList \<noteq> RedisJobMetaPrefix @ j"
  "RedisJobsList \<noteq> RedisJobMetaPrefix @ j"
  "RedisRecentJobsList \<noteq> RedisJobsList"
  "RedisJobsList \<noteq> RedisRecentJobsList"
  by (simp_all add: RedisJobMetaPrefix_def RedisRecentJobsList_def RedisJobsList_def)

lemma Set_listKey: "k' \<noteq> k \<Longrightarrow> listKey r k' \<Longrightarrow> listKey (snd (Set k v t r)) k'"
  by (auto simp add: Set_def listKey_def Let_def split: option.splits rval.splits)

lemma listKey_cong: "kv r' k = kv r k \<Longrightarrow> listKey r' k = listKey r k"
  by (simp add: listKey_def)
lemma recentIDs_cong: "kv r' RedisRecentJobsList = kv r RedisRecentJobsList \<Longrightarrow> recentIDs r' = recentIDs r"
  by (simp add: recentIDs_def)

lemma LPush_recent_ok:
  assumes "next_fault r = None" and "listKey r RedisRecentJobsList"
  shows "LPush RedisRecentJobsList v r
     = (Inr (Suc (length (recentIDs r))),
        (sent (LPUSH RedisRecentJobsList v) r)
          \<lparr>kv := (kv r)(RedisRecentJobsList \<mapsto> RList (v # recentIDs r))\<rparr>)"
  using assms
  by (simp add: LPush_def Let_def listKey_def recentIDs_def split: option.splits rval.splits)

lemma LPush_recent_fail:
  assumes "\<not> (next_fault r = None \<and> listKey r RedisRecentJobsList)"
  shows "\<exists>e. LPush RedisRecentJobsList v r = (Inl e, sent (LPUSH RedisRecentJobsList v) r)"
  using assms
  by (simp add: LPush_def Let_def listKey_def split: option.splits rval.splits)

lemma LTrim_recent_nonempty:
  assumes "kv r RedisRecentJobsList = Some (RList (x # xs))"
  shows "snd (LTrim RedisRecentJobsList 0 (RecentJobsMaxRetain - 1) r)
     = (if next_fault r = None
        then (sent (LTRIM RedisRecentJobsList 0 (RecentJobsMaxRetain - 1)) r)
               \<lparr>kv := (kv r)(RedisRecentJobsList \<mapsto> RList (x # take 99 xs))\<rparr>
        else sent (LTRIM RedisRecentJobsList 0 (RecentJobsMaxRetain - 1)) r)"
  using assms
  by (simp add: LTrim_def Let_def lrange_of_prefix RecentJobsMaxRetain_def split: option.splits)

lemma pushRecent_store:
  "pushRecent jobID r2 =
     (if next_fault r2 = None \<and> listKey r2 RedisRecentJobsList
      then (if fault_at r2 1 = None
            then (sent (LTRIM RedisRecentJobsList 0 (RecentJobsMaxRetain - 1))
                    (sent (LPUSH RedisRecentJobsList jobID) r2))
                 \<lparr>kv := (kv r2)(RedisRecentJobsList \<mapsto> RList (take 100 (jobID # recentIDs r2)))\<rparr>
            else (sent (LTRIM RedisRecentJobsList 0 (RecentJobsMaxRetain - 1))
                    (sent (LPUSH RedisRecentJobsList jobID) r2))
                 \<lparr>kv := (kv r2)(RedisRecentJobsList \<mapsto> RList (jobID # recentIDs r2))\<rparr>)
      else sent (LPUSH RedisRecentJobsList jobID) r2)"
proof (cases "next_fault r2 = None \<and> listKey r2 RedisRecentJobsList")
  case True
  define r3 where "r3 = (sent (LPUSH RedisRecentJobsList jobID) r2)
          \<lparr>kv := (kv r2)(RedisRecentJobsList \<mapsto> RList (jobID # recentIDs r2))\<rparr>"
  have lp: "LPush RedisRecentJobsList jobID r2 = (Inr (Suc (length (recentIDs r2))), r3)"
    using True by (simp add: LPush_recent_ok r3_def)
  have k3: "kv r3 RedisRecentJobsList = Some (RList (jobID # recentIDs r2))"
    by (simp add: r3_def)
  have nf3: "next_fault r3 = fault_at r2 (Suc 0)"
    using next_fault_sent [of "LPUSH RedisRecentJobsList jobID" r2]
    by (simp add: next_fault_def r3_def)
  have "pushRecent jobID r2 = snd (LTrim RedisRecentJobsList 0 (RecentJobsMaxRetain - 1) r3)"
    by (simp add: pushRecent_def lp)
  also have "\<dots> = (if fault_at r2 (Suc 0) = None
        then (sent (LTRIM RedisRecentJobsList 0 (RecentJobsMaxRetain - 1)) r3)
               \<lparr>kv := (kv r3)(RedisRecentJobsList \<mapsto> RList (jobID # take 99 (recentIDs r2)))\<rparr>
        else sent (LTRIM RedisRecentJobsList 0 (RecentJobsMaxRetain - 1)) r3)"
    by (simp add: LTrim_recent_nonempty [OF k3] nf3)
  finally show ?thesis
    using True by (simp add: r3_def sent_def)
next
  case False
  then obtain e where "LPush RedisRecentJobsList jobID r2
      = (Inl e, sent (LPUSH RedisRecentJobsList jobID) r2)"
    using LPush_recent_fail by blast
  then have "pushRecent jobID r2 = sent (LPUSH RedisRecentJobsList jobID) r2"
    by (simp add: pushRecent_def)
  then show ?thesis
    using False by (simp only: if_False)
qed

lemma pushRecent_recentIDs:
  "recentIDs (pushRecent jobID r2) =
     (if next_fault r2 = None \<and> listKey r2 RedisRecentJobsList
      then (if fault_at r2 1 = None then take 100 (jobID # recentIDs r2)
            else jobID # recentIDs r2)
      else recentIDs r2)"
  by (simp add: pushRecent_store) (simp add: recentIDs_def)

lemma pushRecent_listKey: "listKey r2 k \<Longrightarrow> listKey (pushRecent jobID r2) k"
  by (simp add: pushRecent_store) (simp add: listKey_def)

lemma pushRecent_quiet: "faults r2 = [] \<Longrightarrow> faults (pushRecent jobID r2) = []"
  by (simp add: pushRecent_store)

lemma simulate_store:
  assumes "bindJSON cd reqBody = Inr params0"
    and "marshalPayload cd \<lparr>payloadJobID = jobID, payloadCreatedAt = now,
                             payloadParams = applyDefaults params0\<rparr> = Some payloadBytes"
    and "fst (RPush RedisJobsList payloadBytes r) = Inr n"
  shows "\<exists>metaBytes. snd (handleSimulate cd reqBody jobID now r)
           = pushRecent jobID
               (snd (Set (RedisJobMetaPrefix @ jobID) metaBytes DefaultResultTTL
                      (snd (RPush RedisJobsList payloadBytes r))))"
proof -
  obtain r1 where "RPush RedisJobsList payloadBytes r = (Inr n, r1)"
    using assms(3) by (cases "RPush RedisJobsList payloadBytes r") simp
  then have "snd (handleSimulate cd reqBody jobID now r)
           = pushRecent jobID
               (snd (Set (RedisJobMetaPrefix @ jobID)
                      (case marshalMeta cd
                          \<lparr>JobID = jobID, Status = StatusQueued, CreatedAt = now,
                           UpdatedAt = now, Params = applyDefaults params0, Error = [],
                           ResultKey = RedisResultsPrefix @ jobID\<rparr> of
                         None \<Rightarrow> [] | Some b \<Rightarrow> b)
                      DefaultResultTTL
                      (snd (RPush RedisJobsList payloadBytes r))))"
    using assms(1,2) by (simp add: handleSimulate_def Let_def)
  then show ?thesis by blast
qed

lemma simulate_recentIDs:
  assumes "bindJSON cd reqBody = Inr params0"
    and "marshalPayload cd \<lparr>payloadJobID = jobID, payloadCreatedAt = now,
                             payloadParams = applyDefaults params0\<rparr> = Some payloadBytes"
    and "fst (RPush RedisJobsList payloadBytes r) = Inr n"
  shows "recentIDs (snd (handleSimulate cd reqBody jobID now r)) =
     (if fault_at r 2 = None \<and> listKey r RedisRecentJobsList
      then (if fault_at r 3 = None then take 100 (jobID # recentIDs r)
            else jobID # recentIDs r)
      else recentIDs r)"
proof -
  obtain metaBytes where st: "snd (handleSimulate cd reqBody jobID now r)
           = pushRecent jobID
               (snd (Set (RedisJobMetaPrefix @ jobID) metaBytes DefaultResultTTL
                      (snd (RPush RedisJobsList payloadBytes r))))"
    using simulate_store [OF assms] by blast
  define r1 where "r1 = snd (RPush RedisJobsList payloadBytes r)"
  define r2 where "r2 = snd (Set (RedisJobMetaPrefix @ jobID) metaBytes DefaultResultTTL r1)"
  have kv2: "kv r2 RedisRecentJobsList = kv r RedisRecentJobsList"
    by (simp add: r2_def r1_def Set_kv_other RPush_kv_other)
  have f1: "faults r1 = tl (faults r)" by (simp add: r1_def RPush_faults)
  have f2: "faults r2 = tl (faults r1)" by (simp add: r2_def Set_faults)
  have nf: "next_fault r2 = fault_at r 2"
    using fault_at_0 [of r2] fault_at_tl [OF f2, of 0] fault_at_tl [OF f1, of 1]
    by (simp add: numeral_2_eq_2)
  have nf1: "fault_at r2 (Suc 0) = fault_at r 3"
    using fault_at_tl [OF f2, of 1] fault_at_tl [OF f1, of 2]
    by (simp add: numeral_3_eq_3 numeral_2_eq_2)
  show ?thesis
    unfolding st r1_def [symmetric] r2_def [symmetric]
    by (simp add: pushRecent_recentIDs nf nf1 listKey_cong [OF kv2] recentIDs_cong [OF kv2])
qed

lemma fault_at_quiet: "faults r = [] \<Longrightarrow> fault_at r i = None"
  by (simp add: fault_at_def)

lemma next_fault_quiet: "faults r = [] \<Longrightarrow> next_fault r = None"
  by (simp add: next_fault_def)

text \<open>
  Claim C7, as the code has it. After a submission that reaches the store and
  whose head push and trim both succeed (the third and the fourth command of
  the request do not fail, and the key of the recency index holds no string),
  the recency index is the first 100 entries of the new identifier followed by
  the former index, so its length is at most \<open>RecentJobsMaxRetain\<close>. This holds
  whatever the length of the index was before.
\<close>

theorem recency_index_bounded_when_trim_succeeds:
  assumes "bindJSON cd reqBody = Inr params0"
    and "marshalPayload cd \<lparr>payloadJobID = jobID, payloadCreatedAt = now,
                             payloadParams = applyDefaults params0\<rparr> = Some payloadBytes"
    and "fst (RPush RedisJobsList payloadBytes r) = Inr n"
    and "fault_at r 2 = None" and "listKey r RedisRecentJobsList"
    and "fault_at r 3 = None"
  shows "recentIDs (snd (handleSimulate cd reqBody jobID now r)) = take 100 (jobID # recentIDs r)
         \<and> int (length (recentIDs (snd (handleSimulate cd reqBody jobID now r))))
             \<le> RecentJobsMaxRetain"
  using assms(4-6) by (simp add: simulate_recentIDs [OF assms(1-3)] RecentJobsMaxRetain_def)

lemma sample_binds: "bindJSON sampleCodec ''{}'' = Inr zeroParams"
  by (simp add: sampleCodec_def)

lemma sample_marshals:
  "marshalPayload sampleCodec \<lparr>payloadJobID = j, payloadCreatedAt = t,
      payloadParams = p\<rparr> = Some (''payload:'' @ j)"
  by (simp add: sampleCodec_def)

lemma fullIndex_facts:
  "faults fullIndexRedis = []"
  "kv fullIndexRedis RedisJobsList = None"
  "recentIDs fullIndexRedis = map jobName [0..<100]"
  "listKey fullIndexRedis RedisRecentJobsList"
  by (simp_all add: fullIndexRedis_def emptyRedis_def recentIDs_def listKey_def
      RedisRecentJobsList_def RedisJobsList_def)

lemma trimFails_facts:
  "faults trimFailsRedis = [None, None, None, Some ''i/o timeout'']"
  "kv trimFailsRedis RedisJobsList = None"
  "recentIDs trimFailsRedis = map jobName [0..<100]"
  "listKey trimFailsRedis RedisRecentJobsList"
  using fullIndex_facts by (simp_all add: trimFailsRedis_def recentIDs_def listKey_def)

lemma RPush_fresh:
  "next_fault r = None \<Longrightarrow> kv r k = None \<Longrightarrow> fst (RPush k v r) = Inr 1"
  by (simp add: RPush_def Let_def)

text \<open>A submission to a store whose recency index is at its capacity.\<close>

theorem recency_index_bounded_when_trim_succeeds_witness:
  "bindJSON sampleCodec ''{}'' = Inr zeroParams
   \<and> marshalPayload sampleCodec \<lparr>payloadJobID = ''j1'', payloadCreatedAt = 7,
                                  payloadParams = applyDefaults zeroParams\<rparr> = Some ''payload:j1''
   \<and> fst (RPush RedisJobsList ''payload:j1'' fullIndexRedis) = Inr 1
   \<and> fault_at fullIndexRedis 2 = None \<and> listKey fullIndexRedis RedisRecentJobsList
   \<and> fault_at fullIndexRedis 3 = None
   \<and> length (recentIDs fullIndexRedis) = 100
   \<and> recentIDs (snd (handleSimulate sampleCodec ''{}'' ''j1'' 7 fullIndexRedis))
       = take 100 (''j1'' # recentIDs fullIndexRedis)
   \<and> int (length (recentIDs (snd (handleSimulate sampleCodec ''{}'' ''j1'' 7 fullIndexRedis))))
       \<le> RecentJobsMaxRetain"
proof -
  have h2: "marshalPayload sampleCodec \<lparr>payloadJobID = ''j1'', payloadCreatedAt = 7,
              payloadParams = applyDefaults zeroParams\<rparr> = Some ''payload:j1''"
    by (simp add: sample_marshals)
  have h3: "fst (RPush RedisJobsList ''payload:j1'' fullIndexRedis) = Inr 1"
    by (simp add: RPush_fresh next_fault_quiet fullIndex_facts)
  have h4: "fault_at fullIndexRedis 2 = None" and h6: "fault_at fullIndexRedis 3 = None"
    by (simp_all add: fault_at_quiet fullIndex_facts)
  have h5: "listKey fullIndexRedis RedisRecentJobsList"
    by (rule fullIndex_facts)
  have len: "length (recentIDs fullIndexRedis) = 100"
    by (simp add: fullIndex_facts)
  show ?thesis
    using recency_index_bounded_when_trim_succeeds [OF sample_binds h2 h3 h4 h5 h6]
      sample_binds h2 h3 h4 h5 h6 len
    by (simp add: RecentJobsMaxRetain_def)
qed

text \<open>
  Claim C7 as stated bounds the index after every insertion of the submission
  flow. The handler ignores the result of the trim: when the index holds 100
  identifiers, the push succeeds and the trim times out, the submission is
  accepted and the index holds 101 identifiers.
\<close>

theorem recency_index_exceeds_cap_when_trim_fails:
  "length (recentIDs trimFailsRedis) = 100
   \<and> fst (handleSimulate sampleCodec ''{}'' ''j1'' 7 trimFailsRedis)
       = \<lparr>code = 202, body = H [(''job_id'', JStr ''j1''), (''status'', JStr ''queued'')]\<rparr>
   \<and> length (recentIDs (snd (handleSimulate sampleCodec ''{}'' ''j1'' 7 trimFailsRedis))) = 101
   \<and> RecentJobsMaxRetain = 100"
proof -
  have h2: "marshalPayload sampleCodec \<lparr>payloadJobID = ''j1'', payloadCreatedAt = 7,
              payloadParams = applyDefaults zeroParams\<rparr> = Some ''payload:j1''"
    by (simp add: sample_marshals)
  have h3: "fst (RPush RedisJobsList ''payload:j1'' trimFailsRedis) = Inr 1"
    by (simp add: RPush_fresh next_fault_def trimFails_facts)
  have f2: "fault_at trimFailsRedis 2 = None"
    and f3: "fault_at trimFailsRedis 3 = Some ''i/o timeout''"
    by (simp_all add: fault_at_def trimFails_facts)
  have "recentIDs (snd (handleSimulate sampleCodec ''{}'' ''j1'' 7 trimFailsRedis))
      = ''j1'' # recentIDs trimFailsRedis"
    by (simp add: simulate_recentIDs [OF sample_binds h2 h3] f2 f3 trimFails_facts(4))
  moreover have "fst (handleSimulate sampleCodec ''{}'' ''j1'' 7 trimFailsRedis)
       = \<lparr>code = 202, body = H [(''job_id'', JStr ''j1''), (''status'', JStr ''queued'')]\<rparr>"
    using h3 by (cases "RPush RedisJobsList ''payload:j1'' trimFailsRedis")
      (simp add: handleSimulate_def Let_def sample_binds h2 StatusQueued_def)
  ultimately show ?thesis
    by (simp add: trimFails_facts RecentJobsMaxRetain_def)
qed

lemma take_append_take: "take n (xs @ take n ys) = take n (xs @ ys)"
  by (simp add: min_def)

lemma RPush_quiet_ok:
  "faults r = [] \<Longrightarrow> listKey r k \<Longrightarrow> \<exists>n. fst (RPush k v r) = Inr n"
  by (rule RPush_ok) (simp_all add: next_fault_quiet)

lemma simulate_quiet:
  assumes "faults r = []" and "listKey r RedisJobsList" and "listKey r RedisRecentJobsList"
    and "decodable cd (reqBody, jobID, now)"
  shows "faults (snd (handleSimulate cd reqBody jobID now r)) = []
         \<and> listKey (snd (handleSimulate cd reqBody jobID now r)) RedisJobsList
         \<and> listKey (snd (handleSimulate cd reqBody jobID now r)) RedisRecentJobsList
         \<and> recentIDs (snd (handleSimulate cd reqBody jobID now r))
             = take 100 (jobID # recentIDs r)"
proof -
  from assms(4) obtain params0 payloadBytes
    where b: "bindJSON cd reqBody = Inr params0"
      and m: "marshalPayload cd \<lparr>payloadJobID = jobID, payloadCreatedAt = now,
                 payloadParams = applyDefaults params0\<rparr> = Some payloadBytes"
    by (auto split: sum.splits)
  obtain n where p: "fst (RPush RedisJobsList payloadBytes r) = Inr n"
    using RPush_quiet_ok [OF assms(1,2)] by blast
  obtain metaBytes where st: "snd (handleSimulate cd reqBody jobID now r)
           = pushRecent jobID
               (snd (Set (RedisJobMetaPrefix @ jobID) metaBytes DefaultResultTTL
                      (snd (RPush RedisJobsList payloadBytes r))))"
    using simulate_store [OF b m p] by blast
  define r2 where "r2 = snd (Set (RedisJobMetaPrefix @ jobID) metaBytes DefaultResultTTL
                      (snd (RPush RedisJobsList payloadBytes r)))"
  have f2: "faults r2 = []"
    by (simp add: r2_def Set_faults RPush_faults assms(1))
  have l2: "listKey r2 RedisJobsList" "listKey r2 RedisRecentJobsList"
    by (simp_all add: r2_def Set_listKey RPush_listKey assms(2,3))
  have "recentIDs (snd (handleSimulate cd reqBody jobID now r))
             = take 100 (jobID # recentIDs r)"
    by (simp add: simulate_recentIDs [OF b m p] fault_at_quiet [OF assms(1)] assms(3))
  then show ?thesis
    unfolding st r2_def [symmetric]
    by (simp add: pushRecent_quiet [OF f2] pushRecent_listKey l2)
qed

lemma jobIDs_Cons: "jobIDs ((reqBody, jobID, now) # qs) = jobID # jobIDs qs"
  by (simp add: jobIDs_def)

lemma submitAll_recent:
  assumes "faults r = []" and "listKey r RedisJobsList" and "listKey r RedisRecentJobsList"
    and "list_all (decodable cd) qs"
  shows "faults (submitAll cd qs r) = []
         \<and> listKey (submitAll cd qs r) RedisJobsList
         \<and> listKey (submitAll cd qs r) RedisRecentJobsList
         \<and> recentIDs (submitAll cd qs r)
             = (if qs = [] then recentIDs r else take 100 (rev (jobIDs qs) @ recentIDs r))"
  using assms
proof (induction qs arbitrary: r)
  case Nil
  then show ?case by simp
next
  case (Cons q qs)
  obtain reqBody jobID now where q: "q = (reqBody, jobID, now)"
    by (cases q) auto
  define r' where "r' = snd (handleSimulate cd reqBody jobID now r)"
  have d: "decodable cd (reqBody, jobID, now)" and ds: "list_all (decodable cd) qs"
    using Cons.prems(4) by (simp_all add: q)
  have s: "faults r' = []" "listKey r' RedisJobsList" "listKey r' RedisRecentJobsList"
    "recentIDs r' = take 100 (jobID # recentIDs r)"
    using simulate_quiet [OF Cons.prems(1-3) d] by (simp_all add: r'_def)
  have ih: "faults (submitAll cd qs r') = []
         \<and> listKey (submitAll cd qs r') RedisJobsList
         \<and> listKey (submitAll cd qs r') RedisRecentJobsList
         \<and> recentIDs (submitAll cd qs r')
             = (if qs = [] then recentIDs r' else take 100 (rev (jobIDs qs) @ recentIDs r'))"
    by (rule Cons.IH [OF s(1-3) ds])
  have "(if qs = [] then recentIDs r' else take 100 (rev (jobIDs qs) @ recentIDs r'))
      = take 100 (rev (jobIDs (q # qs)) @ recentIDs r)"
  proof (cases "qs = []")
    case True
    then show ?thesis by (simp add: s(4) q jobIDs_def)
  next
    case False
    then show ?thesis
      using take_append_take [of 100 "rev (jobIDs qs)" "jobID # recentIDs r"]
      by (simp add: s(4) q jobIDs_Cons)
  qed
  with ih show ?case
    by (simp add: q r'_def)
qed

lemma LRange_quiet:
  "faults r = [] \<Longrightarrow> listKey r RedisRecentJobsList \<Longrightarrow>
     fst (LRange RedisRecentJobsList 0 49 r) = Inr (take 50 (recentIDs r))"
  by (simp add: LRange_def Let_def next_fault_quiet listKey_def recentIDs_def lrange_of_prefix
      split: option.splits rval.splits)

lemma listResults_quiet:
  assumes "faults r = []" and "listKey r RedisRecentJobsList"
  shows "fst (handleListResults r)
     = \<lparr>code = 200, body = H [(''recent_job_ids'', JArr (map JStr (take 50 (recentIDs r))))]\<rparr>"
  using LRange_quiet [OF assms]
  by (cases "LRange RedisRecentJobsList 0 49 r") (simp add: handleListResults_def)

lemma listing_after_submissions:
  assumes "faults r = []" and "listKey r RedisJobsList" and "listKey r RedisRecentJobsList"
    and "list_all (decodable cd) qs" and "length qs = 101"
  shows "length (recentIDs (submitAll cd qs r)) = 100"
    and "fst (handleListResults (submitAll cd qs r))
       = \<lparr>code = 200,
          body = H [(''recent_job_ids'', JArr (map JStr (take 50 (rev (jobIDs qs)))))]\<rparr>"
proof -
  have ne: "qs \<noteq> []" using assms(5) by auto
  have len: "length (jobIDs qs) = 101" by (simp add: jobIDs_def assms(5))
  note sa = submitAll_recent [OF assms(1-4)]
  from sa ne have rec: "recentIDs (submitAll cd qs r) = take 100 (rev (jobIDs qs) @ recentIDs r)"
    by simp
  then show "length (recentIDs (submitAll cd qs r)) = 100"
    by (simp add: len)
  have "take 50 (recentIDs (submitAll cd qs r)) = take 50 (rev (jobIDs qs))"
    by (simp add: rec len)
  with sa show "fst (handleListResults (submitAll cd qs r))
       = \<lparr>code = 200,
          body = H [(''recent_job_ids'', JArr (map JStr (take 50 (rev (jobIDs qs)))))]\<rparr>"
    by (simp add: listResults_quiet)
qed

lemma newest_first:
  assumes "length xs = 101"
  shows "length (take 50 (rev xs)) = 50" and "hd (take 50 (rev xs)) = last xs"
proof -
  show "length (take 50 (rev xs)) = 50" using assms by simp
  have "xs \<noteq> []" using assms by auto
  then show "hd (take 50 (rev xs)) = last xs"
    by (simp add: hd_rev)
qed

text \<open>
  Claim C8, as the code has it. After \<open>RecentJobsMaxRetain + 1\<close> submissions that
  all reach a store without failures, the recency index holds exactly
  \<open>RecentJobsMaxRetain\<close> identifiers, and \<open>GET /results\<close> answers 200 with the first
  50 of them: exactly 50 identifiers, the most recently submitted first, in the
  reverse order of submission.
\<close>

theorem listing_after_cap_plus_one_submissions:
  assumes "faults r = []" and "listKey r RedisJobsList" and "listKey r RedisRecentJobsList"
    and "list_all (decodable cd) qs"
    and "int (length qs) = RecentJobsMaxRetain + 1"
  shows "int (length (recentIDs (submitAll cd qs r))) = RecentJobsMaxRetain
         \<and> fst (handleListResults (submitAll cd qs r))
             = \<lparr>code = 200,
                body = H [(''recent_job_ids'', JArr (map JStr (take 50 (rev (jobIDs qs)))))]\<rparr>
         \<and> length (take 50 (rev (jobIDs qs))) = 50
         \<and> hd (take 50 (rev (jobIDs qs))) = last (jobIDs qs)"
proof -
  have len: "length qs = 101"
    using assms(5) by (simp add: RecentJobsMaxRetain_def)
  then have "length (jobIDs qs) = 101"
    by (simp add: jobIDs_def)
  then show ?thesis
    using listing_after_submissions [OF assms(1-4) len] newest_first [of "jobIDs qs"]
    by (simp add: RecentJobsMaxRetain_def)
qed

lemma emptyRedis_facts:
  "faults emptyRedis = []" "listKey emptyRedis k" "recentIDs emptyRedis = []"
  by (simp_all add: emptyRedis_def listKey_def recentIDs_def)

lemma manySubmissions_facts:
  "list_all (decodable sampleCodec) manySubmissions"
  "length manySubmissions = 101"
  "last (jobIDs manySubmissions) = jobName 100"
proof -
  show "list_all (decodable sampleCodec) manySubmissions"
    by (simp add: manySubmissions_def list_all_iff submissionOf_def sample_binds sample_marshals)
  show "length manySubmissions = 101"
    by (simp add: manySubmissions_def)
  have "jobIDs manySubmissions = map jobName [0..<101]"
    by (simp add: manySubmissions_def jobIDs_def submissionOf_def)
  moreover have "[0..<101] = [0..<100] @ [100::nat]"
    using upt_Suc_append [of 0 100] by simp
  ultimately show "last (jobIDs manySubmissions) = jobName 100"
    by simp
qed

text \<open>101 submissions to the empty store; the last one is listed first.\<close>

theorem listing_after_cap_plus_one_submissions_witness:
  "faults emptyRedis = [] \<and> listKey emptyRedis RedisJobsList
   \<and> listKey emptyRedis RedisRecentJobsList
   \<and> list_all (decodable sampleCodec) manySubmissions
   \<and> int (length manySubmissions) = RecentJobsMaxRetain + 1
   \<and> int (length (recentIDs (submitAll sampleCodec manySubmissions emptyRedis)))
       = RecentJobsMaxRetain
   \<and> fst (handleListResults (submitAll sampleCodec manySubmissions emptyRedis))
       = \<lparr>code = 200,
          body = H [(''recent_job_ids'',
                     JArr (map JStr (take 50 (rev (jobIDs manySubmissions)))))]\<rparr>
   \<and> length (take 50 (rev (jobIDs manySubmissions))) = 50
   \<and> hd (take 50 (rev (jobIDs manySubmissions))) = jobName 100"
proof -
  have h5: "int (length manySubmissions) = RecentJobsMaxRetain + 1"
    by (simp add: manySubmissions_facts RecentJobsMaxRetain_def)
  show ?thesis
    using listing_after_cap_plus_one_submissions
      [OF emptyRedis_facts(1) emptyRedis_facts(2) emptyRedis_facts(2)
          manySubmissions_facts(1) h5]
      emptyRedis_facts manySubmissions_facts h5
    by simp
qed

text \<open>
  Claim C8 as stated has the listing return \<open>N = 100\<close> identifiers. The handler
  asks for the range 0 to 49: after 101 submissions to the empty store the
  listing holds 50 identifiers.
\<close>

theorem listing_returns_fifty_not_cap:
  "int (length manySubmissions) = RecentJobsMaxRetain + 1
   \<and> fst (handleListResults (submitAll sampleCodec manySubmissions emptyRedis))
       = \<lparr>code = 200,
          body = H [(''recent_job_ids'',
                     JArr (map JStr (take 50 (rev (jobIDs manySubmissions)))))]\<rparr>
   \<and> int (length (map JStr (take 50 (rev (jobIDs manySubmissions))))) = 50
   \<and> RecentJobsMaxRetain = 100"
proof -
  have "length (jobIDs manySubmissions) = 101"
    by (simp add: jobIDs_def manySubmissions_facts)
  then show ?thesis
    using listing_after_submissions(2)
      [OF emptyRedis_facts(1) emptyRedis_facts(2) emptyRedis_facts(2)
          manySubmissions_facts(1) manySubmissions_facts(2)]
    by (simp add: manySubmissions_facts RecentJobsMaxRetain_def)
qed

end
